theory Spec2Isabelle
  imports Complex_Main "HOL-Library.Word"
begin

section \<open>The PID controller of pid.hpp and pid.cpp\<close>

text \<open>
  The class \<open>base_pid\<close> is a record of its members, in the order of pid.hpp. The four
  bindings \<open>pv\<close>, \<open>sp\<close>, \<open>tb\<close>, \<open>co\<close> are pointers to cells owned by the caller: a pointer
  is an optional address (\<open>None\<close> is \<open>nullptr\<close>) and the caller's cells are an explicit
  store from addresses to values, so that two bindings may name the same cell.

  \<open>uint64_t\<close> is \<open>64 word\<close>: subtraction wraps and \<open><\<close> is the unsigned order.

  \<open>float\<close> is the type \<open>flt\<close> below: a finite value, one of the two infinities, or
  NaN, with the arithmetic and the comparisons of IEEE 754.
\<close>

type_synonym u64 = "64 word"
type_synonym addr = nat
type_synonym ptr = "addr option"

subsection \<open>Single-precision values\<close>

text \<open>
  A finite value carries the real number it stands for. An operation on finite values
  gives the exact result when its magnitude is at most \<open>flt_max\<close> and the infinity of its
  sign beyond; the operations on infinities and NaN are those of IEEE 754: NaN
  propagates, \<open>inf - inf\<close>, \<open>0 * inf\<close>, \<open>inf / inf\<close> and \<open>0 / 0\<close> are NaN, and every
  comparison with a NaN is false. Not modelled: rounding of finite results to 24
  significant bits (underflow included) and the sign of zero. Every concrete input used
  below is far from any rounding boundary.
\<close>

datatype flt = Finite real | PInf | MInf | NaN

text \<open>The largest finite single-precision value, \<open>(2^24 - 1) * 2^104\<close>.\<close>

definition flt_max :: real where
  "flt_max = 340282346638528859811704183484516925440"

definition round_flt :: "real \<Rightarrow> flt" where
  "round_flt r = (if r > flt_max then PInf else if r < - flt_max then MInf else Finite r)"

instantiation flt :: "{zero, one, uminus, plus, minus, times, inverse, ord}"
begin

definition zero_flt :: flt where
  "zero_flt = Finite 0"

definition one_flt :: flt where
  "one_flt = Finite 1"

fun uminus_flt :: "flt \<Rightarrow> flt" where
  "uminus_flt (Finite a) = Finite (- a)"
| "uminus_flt PInf = MInf"
| "uminus_flt MInf = PInf"
| "uminus_flt NaN = NaN"

fun plus_flt :: "flt \<Rightarrow> flt \<Rightarrow> flt" where
  "plus_flt NaN y = NaN"
| "plus_flt x NaN = NaN"
| "plus_flt (Finite a) (Finite b) = round_flt (a + b)"
| "plus_flt PInf MInf = NaN"
| "plus_flt MInf PInf = NaN"
| "plus_flt PInf y = PInf"
| "plus_flt x PInf = PInf"
| "plus_flt MInf y = MInf"
| "plus_flt x MInf = MInf"

definition minus_flt :: "flt \<Rightarrow> flt \<Rightarrow> flt" where
  "minus_flt x y = x + (- y)"

fun times_flt :: "flt \<Rightarrow> flt \<Rightarrow> flt" where
  "times_flt NaN y = NaN"
| "times_flt x NaN = NaN"
| "times_flt (Finite a) (Finite b) = round_flt (a * b)"
| "times_flt (Finite a) PInf = (if a = 0 then NaN else if a > 0 then PInf else MInf)"
| "times_flt (Finite a) MInf = (if a = 0 then NaN else if a > 0 then MInf else PInf)"
| "times_flt PInf (Finite b) = (if b = 0 then NaN else if b > 0 then PInf else MInf)"
| "times_flt MInf (Finite b) = (if b = 0 then NaN else if b > 0 then MInf else PInf)"
| "times_flt PInf PInf = PInf"
| "times_flt PInf MInf = MInf"
| "times_flt MInf PInf = MInf"
| "times_flt MInf MInf = PInf"

text \<open>A zero divisor counts as \<open>+0\<close>.\<close>

fun divide_flt :: "flt \<Rightarrow> flt \<Rightarrow> flt" where
  "divide_flt NaN y = NaN"
| "divide_flt x NaN = NaN"
| "divide_flt (Finite a) (Finite b) =
     (if b = 0 then (if a = 0 then NaN else if a > 0 then PInf else MInf)
      else round_flt (a / b))"
| "divide_flt (Finite a) PInf = Finite 0"
| "divide_flt (Finite a) MInf = Finite 0"
| "divide_flt PInf (Finite b) = (if b < 0 then MInf else PInf)"
| "divide_flt MInf (Finite b) = (if b < 0 then PInf else MInf)"
| "divide_flt PInf y = NaN"
| "divide_flt MInf y = NaN"

definition inverse_flt :: "flt \<Rightarrow> flt" where
  "inverse_flt x = divide (Finite 1) x"

fun less_flt :: "flt \<Rightarrow> flt \<Rightarrow> bool" where
  "less_flt NaN y = False"
| "less_flt x NaN = False"
| "less_flt (Finite a) (Finite b) = (a < b)"
| "less_flt x MInf = False"
| "less_flt PInf y = False"
| "less_flt MInf y = True"
| "less_flt x PInf = True"

fun less_eq_flt :: "flt \<Rightarrow> flt \<Rightarrow> bool" where
  "less_eq_flt NaN y = False"
| "less_eq_flt x NaN = False"
| "less_eq_flt (Finite a) (Finite b) = (a \<le> b)"
| "less_eq_flt MInf y = True"
| "less_eq_flt x PInf = True"
| "less_eq_flt x MInf = False"
| "less_eq_flt PInf y = False"

instance ..

end

text \<open>
  \<open>(float)tmp_dt\<close> of lines 341 and 352: every \<open>uint64_t\<close> value is below \<open>flt_max\<close>, so
  the result is finite.
\<close>

definition float_of_u64 :: "u64 \<Rightarrow> flt" where
  "float_of_u64 w = Finite (real (unat w))"

type_synonym store = "addr \<Rightarrow> flt"

text \<open>\<open>__FLT_MAX__\<close>, the compiler's name for the largest finite single-precision value.\<close>

definition FLT_MAX :: flt where
  "FLT_MAX = Finite flt_max"

text \<open>pid.hpp, line 16.\<close>

definition DT_MIN_PID :: u64 where
  "DT_MIN_PID = 10"

record base_pid =
  tmp_dt :: u64
  tmp_co :: flt
  tmp_err :: flt
  d_iterm :: flt
  pv :: ptr
  sp :: ptr
  tb :: ptr
  co :: ptr
  kp :: flt
  ki :: flt
  kd :: flt
  db :: flt
  pvll :: flt
  pvhl :: flt
  spll :: flt
  sphl :: flt
  coll :: flt
  cohl :: flt
  dtmin :: u64
  db_on :: bool
  man_on :: bool
  lts :: u64
  lman_on :: bool
  Iterm :: flt
  lerr :: flt

subsection \<open>Constructors (pid.cpp, lines 17-123)\<close>

text \<open>
  The constructors initialise every member except the scratch members \<open>tmp_dt\<close>,
  \<open>tmp_err\<close> and \<open>d_iterm\<close>, whose initial content is whatever the storage held: it is
  the parameters \<open>dt0\<close>, \<open>err0\<close>, \<open>di0\<close>.
\<close>

definition base_pid_default :: "u64 \<Rightarrow> flt \<Rightarrow> flt \<Rightarrow> base_pid" where
  "base_pid_default dt0 err0 di0 =
     \<lparr> tmp_dt = dt0, tmp_co = 0, tmp_err = err0, d_iterm = di0,
       pv = None, sp = None, tb = None, co = None,
       kp = 0, ki = 0, kd = 0, db = 0,
       pvll = - FLT_MAX, pvhl = FLT_MAX,
       spll = - FLT_MAX, sphl = FLT_MAX,
       coll = - FLT_MAX, cohl = FLT_MAX,
       dtmin = DT_MIN_PID, db_on = False, man_on = True,
       lts = 0, lman_on = True, Iterm = 0, lerr = 0 \<rparr>"

definition base_pid_minimal ::
  "u64 \<Rightarrow> flt \<Rightarrow> flt \<Rightarrow> ptr \<Rightarrow> ptr \<Rightarrow> ptr \<Rightarrow> ptr \<Rightarrow> base_pid" where
  "base_pid_minimal dt0 err0 di0 ppv psp pco ptie =
     \<lparr> tmp_dt = dt0, tmp_co = 0, tmp_err = err0, d_iterm = di0,
       pv = ppv, sp = psp, tb = ptie, co = pco,
       kp = 0, ki = 0, kd = 0, db = 0,
       pvll = - FLT_MAX, pvhl = FLT_MAX,
       spll = - FLT_MAX, sphl = FLT_MAX,
       coll = - FLT_MAX, cohl = FLT_MAX,
       dtmin = DT_MIN_PID, db_on = False, man_on = True,
       lts = 0, lman_on = True, Iterm = 0, lerr = 0 \<rparr>"

definition base_pid_full ::
  "u64 \<Rightarrow> flt \<Rightarrow> flt \<Rightarrow> ptr \<Rightarrow> ptr \<Rightarrow> ptr \<Rightarrow> ptr \<Rightarrow>
   flt \<Rightarrow> flt \<Rightarrow> flt \<Rightarrow> flt \<Rightarrow> flt \<Rightarrow> flt \<Rightarrow> flt \<Rightarrow> flt \<Rightarrow> flt \<Rightarrow> flt \<Rightarrow>
   bool \<Rightarrow> bool \<Rightarrow> u64 \<Rightarrow> base_pid" where
  "base_pid_full dt0 err0 di0 ppv psp pco ptie kpv kiv kdv dbv
       pvllv pvhlv spllv sphlv collv cohlv db_onv man_onv dtminv =
     \<lparr> tmp_dt = dt0, tmp_co = 0, tmp_err = err0, d_iterm = di0,
       pv = ppv, sp = psp, tb = ptie, co = pco,
       kp = kpv, ki = kiv * Finite (1 / 1000000), kd = kdv * Finite 1000000, db = dbv,
       pvll = pvllv, pvhl = pvhlv,
       spll = spllv, sphl = sphlv,
       coll = collv, cohl = cohlv,
       dtmin = dtminv, db_on = db_onv, man_on = man_onv,
       lts = 0, lman_on = True, Iterm = 0, lerr = 0 \<rparr>"

subsection \<open>Setters (pid.cpp, lines 138-281)\<close>

text \<open>
  A setter returns its \<open>int\<close> result and the updated object. The reference parameters
  are only read, so they are passed by value.
\<close>

definition set_pv_limits :: "flt \<Rightarrow> flt \<Rightarrow> base_pid \<Rightarrow> int \<times> base_pid" where
  "set_pv_limits ll hl c =
     (if hl < ll then (- 1, c\<lparr>pvll := hl, pvhl := ll\<rparr>)
      else (0, c\<lparr>pvll := ll, pvhl := hl\<rparr>))"

definition set_sp_limits :: "flt \<Rightarrow> flt \<Rightarrow> base_pid \<Rightarrow> int \<times> base_pid" where
  "set_sp_limits ll hl c =
     (if hl < ll then (- 1, c\<lparr>spll := hl, sphl := ll\<rparr>)
      else (0, c\<lparr>spll := ll, sphl := hl\<rparr>))"

definition set_cp_limits :: "flt \<Rightarrow> flt \<Rightarrow> base_pid \<Rightarrow> int \<times> base_pid" where
  "set_cp_limits ll hl c =
     (if hl < ll then (- 1, c\<lparr>coll := hl, cohl := ll\<rparr>)
      else (0, c\<lparr>coll := ll, cohl := hl\<rparr>))"

text \<open>
  Lines 217-228. The last disjunct of the check compares \<open>kpv\<close>, not \<open>kdv\<close>, with
  \<open>__FLT_MAX__ * 1.0e-6\<close>, as the source does. The source computes the two products of
  lines 225-226 in \<open>double\<close> and narrows them to \<open>float\<close> on assignment: a product beyond
  \<open>flt_max\<close> is stored as an infinity, as \<open>*\<close> on \<open>flt\<close> gives it.
\<close>

definition set_gain_param :: "flt \<Rightarrow> flt \<Rightarrow> flt \<Rightarrow> base_pid \<Rightarrow> int \<times> base_pid" where
  "set_gain_param kpv kiv kdv c =
     (if kpv < - FLT_MAX \<or> kpv > FLT_MAX \<or>
         kiv < - FLT_MAX \<or> kiv > FLT_MAX \<or>
         kdv < - (FLT_MAX * Finite (1 / 1000000)) \<or> kpv > FLT_MAX * Finite (1 / 1000000)
      then (- 1, c)
      else (0, c\<lparr>kp := kpv, ki := kiv * Finite (1 / 1000000), kd := kdv * Finite 1000000\<rparr>))"

definition set_db_param :: "flt \<Rightarrow> bool \<Rightarrow> base_pid \<Rightarrow> int \<times> base_pid" where
  "set_db_param dbv db_onv c =
     (if dbv < - FLT_MAX \<or> dbv > FLT_MAX then (- 1, c)
      else (0, c\<lparr>db := dbv, db_on := db_onv\<rparr>))"

definition set_man_param :: "bool \<Rightarrow> base_pid \<Rightarrow> base_pid" where
  "set_man_param man_onv c = c\<lparr>man_on := man_onv\<rparr>"

definition set_dtmin_param :: "u64 \<Rightarrow> base_pid \<Rightarrow> int \<times> base_pid" where
  "set_dtmin_param dtminv c =
     (let c = c\<lparr>dtmin := dtminv\<rparr>
      in if dtmin c = 0 then (- 1, c\<lparr>dtmin := dtmin c + 1\<rparr>) else (0, c))"

subsection \<open>\<open>run_pid\<close> (pid.cpp, lines 287-364)\<close>

text \<open>
  Dereferencing a null pointer and dividing by zero are outcomes of their own, so that
  a call that would do either is visible in the result.
\<close>

datatype fault = Null_deref | Div_by_zero

type_synonym outcome = "fault + (int \<times> base_pid \<times> store)"

text \<open>\<open>*p\<close> as an rvalue.\<close>

definition load :: "ptr \<Rightarrow> store \<Rightarrow> fault + flt" where
  "load p h = (case p of None \<Rightarrow> Inl Null_deref | Some a \<Rightarrow> Inr (h a))"

text \<open>\<open>*co = tmp_co; return 0;\<close> (lines 302-303, 333-334, 362-363).\<close>

definition write_co :: "base_pid \<Rightarrow> store \<Rightarrow> outcome" where
  "write_co c h =
     (case co c of None \<Rightarrow> Inl Null_deref
      | Some a \<Rightarrow> Inr (0, c, h(a := tmp_co c)))"

text \<open>The clamp of lines 313 and 361.\<close>

definition clamp_co :: "base_pid \<Rightarrow> flt \<Rightarrow> flt" where
  "clamp_co c x = (if x < coll c then coll c else if x > cohl c then cohl c else x)"

text \<open>Lines 310-317, the body of \<open>if (man_on)\<close>.\<close>

definition manual_cycle :: "base_pid \<Rightarrow> store \<Rightarrow> outcome" where
  "manual_cycle c h =
     (let c = c\<lparr>tmp_co := (case tb c of None \<Rightarrow> 0 | Some a \<Rightarrow> h a)\<rparr>;
          c = c\<lparr>tmp_co := clamp_co c (tmp_co c)\<rparr>
      in case write_co c h of
           Inl f \<Rightarrow> Inl f
         | Inr (r, c, h) \<Rightarrow> Inr (r, c\<lparr>lman_on := True\<rparr>, h))"

text \<open>Lines 319-324.\<close>

definition bumpless :: "base_pid \<Rightarrow> base_pid" where
  "bumpless c = (if lman_on c then c\<lparr>lman_on := False, Iterm := tmp_co c\<rparr> else c)"

text \<open>Lines 337-363: proportional kick, derivative term, integral term, clamp, write.\<close>

definition pid_law :: "base_pid \<Rightarrow> store \<Rightarrow> outcome" where
  "pid_law c h =
     (let c = c\<lparr>tmp_co := kp c * tmp_err c\<rparr>
      in if tmp_dt c = 0 then Inl Div_by_zero
         else
           let c = c\<lparr>tmp_co := tmp_co c + kd c * (tmp_err c - lerr c) / float_of_u64 (tmp_dt c)\<rparr>;
               c = c\<lparr>lerr := tmp_err c\<rparr>;
               c = (if ki c = 0 then c\<lparr>Iterm := 0\<rparr>
                    else
                      let c = c\<lparr>d_iterm := ki c * tmp_err c * float_of_u64 (tmp_dt c)\<rparr>;
                          c = c\<lparr>tmp_co := tmp_co c + Iterm c\<rparr>
                      in if \<not> ((tmp_co c > cohl c \<and> d_iterm c > 0) \<or>
                                (tmp_co c < coll c \<and> d_iterm c < 0))
                         then c\<lparr>tmp_co := tmp_co c + d_iterm c, Iterm := Iterm c + d_iterm c\<rparr>
                         else c);
               c = c\<lparr>tmp_co := clamp_co c (tmp_co c)\<rparr>
           in write_co c h)"

text \<open>Lines 326-363: the error, the deadband gate, then the control law.\<close>

definition auto_cycle :: "base_pid \<Rightarrow> store \<Rightarrow> outcome" where
  "auto_cycle c h =
     (case load (sp c) h of
        Inl f \<Rightarrow> Inl f
      | Inr s \<Rightarrow>
          (case load (pv c) h of
             Inl f \<Rightarrow> Inl f
           | Inr p \<Rightarrow>
               let c = c\<lparr>tmp_err := s - p\<rparr>
               in if db_on c \<and> tmp_err c < db c
                  then write_co (c\<lparr>lerr := tmp_err c\<rparr>) h
                  else pid_law c h))"

text \<open>
  Line 295, \<open>dtmin == 1;\<close>, is a comparison whose value is discarded: the branch only
  returns -1.
\<close>

definition run_pid :: "u64 \<Rightarrow> base_pid \<Rightarrow> store \<Rightarrow> outcome" where
  "run_pid tstamp c h =
     (if pv c = None \<or> sp c = None \<or> co c = None then Inr (- 1, c, h)
      else if dtmin c = 0 then Inr (- 1, c, h)
      else
        let c = c\<lparr>tmp_dt := tstamp - lts c\<rparr>
        in if tmp_dt c < dtmin c then write_co c h
           else
             let c = c\<lparr>lts := tstamp\<rparr>
             in if man_on c then manual_cycle c h
                else auto_cycle (bumpless c) h)"

subsection \<open>Path conditions of \<open>run_pid\<close>\<close>

text \<open>The value of a cell through a binding (0 through a null one, as line 312 reads \<open>tb\<close>).\<close>

definition cell :: "ptr \<Rightarrow> store \<Rightarrow> flt" where
  "cell p h = (case p of None \<Rightarrow> 0 | Some a \<Rightarrow> h a)"

text \<open>Both precondition checks (lines 289 and 294) pass.\<close>

definition ready :: "base_pid \<Rightarrow> bool" where
  "ready c \<longleftrightarrow> pv c \<noteq> None \<and> sp c \<noteq> None \<and> co c \<noteq> None \<and> dtmin c \<noteq> 0"

text \<open>The call gets past the rate limit of line 301: an effective evaluation.\<close>

definition effective :: "u64 \<Rightarrow> base_pid \<Rightarrow> bool" where
  "effective tstamp c \<longleftrightarrow> ready c \<and> \<not> (tstamp - lts c < dtmin c)"

text \<open>The condition of the deadband gate, line 331, on the error of line 327.\<close>

definition gated :: "base_pid \<Rightarrow> store \<Rightarrow> bool" where
  "gated c h \<longleftrightarrow> db_on c \<and> cell (sp c) h - cell (pv c) h < db c"

text \<open>The object when an effective automatic evaluation has passed line 324.\<close>

definition seeded :: "u64 \<Rightarrow> base_pid \<Rightarrow> base_pid" where
  "seeded tstamp c = bumpless (c\<lparr>tmp_dt := tstamp - lts c, lts := tstamp\<rparr>)"

subsection \<open>The controller \<open>pidPID\<close> of pid_unittest.cpp (lines 45-63)\<close>

text \<open>The cells \<open>tpv3\<close>, \<open>tsp3\<close>, \<open>tco3\<close>, \<open>ttb3\<close> are the addresses 0, 1, 2, 3.\<close>

definition test_cells :: store where
  "test_cells = (\<lambda>_. 0)(1 := 1, 3 := Finite 2)"

definition pidPID :: base_pid where
  "pidPID = set_man_param False
     (base_pid_full 0 0 0 (Some 0) (Some 1) (Some 2) (Some 3) 1 1 1 0
        (- FLT_MAX) FLT_MAX (- FLT_MAX) FLT_MAX (- FLT_MAX) FLT_MAX False True DT_MIN_PID)"

subsection \<open>The integral step as the specification words it\<close>

text \<open>
  Step 11 of the evaluation, written from the specification's sentence and not from the
  code: from the internal integral gain, the error, the elapsed time, the output limits,
  the existing integral term and the running output total it gives the stored integral
  term and the running total after the step. It is compared with \<open>pid_law\<close> below.
\<close>

definition spec_integral_step ::
  "flt \<Rightarrow> flt \<Rightarrow> flt \<Rightarrow> flt \<Rightarrow> flt \<Rightarrow> flt \<Rightarrow> flt \<Rightarrow> flt \<times> flt" where
  "spec_integral_step ki_internal error elapsed low high integral running =
     (if ki_internal = 0 then (0, running)
      else
        let delta = ki_internal * error * elapsed;
            running = running + integral
        in if (running > high \<and> delta > 0) \<or> (running < low \<and> delta < 0)
           then (integral, running)
           else (integral + delta, running + delta))"

subsection \<open>Sequences of calls on one controller\<close>

text \<open>
  What a caller can do between construction and a given moment: call \<open>run_pid\<close>, call
  a setter, or write one of its own cells. The \<open>int\<close> results are dropped; a fault ends
  the sequence.
\<close>

datatype call =
    Run_pid u64
  | Set_pv_limits flt flt
  | Set_sp_limits flt flt
  | Set_cp_limits flt flt
  | Set_gain_param flt flt flt
  | Set_db_param flt bool
  | Set_man_param bool
  | Set_dtmin_param u64
  | Caller_write addr flt

fun do_call :: "call \<Rightarrow> base_pid \<times> store \<Rightarrow> fault + (base_pid \<times> store)" where
  "do_call (Run_pid t) (c, h) =
     (case run_pid t c h of Inl f \<Rightarrow> Inl f | Inr (r, c', h') \<Rightarrow> Inr (c', h'))"
| "do_call (Set_pv_limits ll hl) (c, h) = Inr (snd (set_pv_limits ll hl c), h)"
| "do_call (Set_sp_limits ll hl) (c, h) = Inr (snd (set_sp_limits ll hl c), h)"
| "do_call (Set_cp_limits ll hl) (c, h) = Inr (snd (set_cp_limits ll hl c), h)"
| "do_call (Set_gain_param kpv kiv kdv) (c, h) = Inr (snd (set_gain_param kpv kiv kdv c), h)"
| "do_call (Set_db_param dbv db_onv) (c, h) = Inr (snd (set_db_param dbv db_onv c), h)"
| "do_call (Set_man_param man_onv) (c, h) = Inr (set_man_param man_onv c, h)"
| "do_call (Set_dtmin_param dtminv) (c, h) = Inr (snd (set_dtmin_param dtminv c), h)"
| "do_call (Caller_write a v) (c, h) = Inr (c, h(a := v))"

fun do_calls :: "call list \<Rightarrow> base_pid \<times> store \<Rightarrow> fault + (base_pid \<times> store)" where
  "do_calls [] s = Inr s"
| "do_calls (x # xs) s =
     (case do_call x s of Inl f \<Rightarrow> Inl f | Inr s' \<Rightarrow> do_calls xs s')"

text \<open>The call is an effective evaluation in automatic mode, respectively in manual mode.\<close>

fun auto_eval :: "call \<Rightarrow> base_pid \<times> store \<Rightarrow> bool" where
  "auto_eval (Run_pid t) (c, h) = (effective t c \<and> \<not> man_on c)"
| "auto_eval _ _ = False"

fun manual_eval :: "call \<Rightarrow> base_pid \<times> store \<Rightarrow> bool" where
  "manual_eval (Run_pid t) (c, h) = (effective t c \<and> man_on c)"
| "manual_eval _ _ = False"

text \<open>No call of the sequence, in the state it is made in, is of the given kind.\<close>

fun never :: "(call \<Rightarrow> base_pid \<times> store \<Rightarrow> bool) \<Rightarrow> call list \<Rightarrow> base_pid \<times> store \<Rightarrow> bool" where
  "never P [] s = True"
| "never P (x # xs) s =
     (\<not> P x s \<and> (case do_call x s of Inl f \<Rightarrow> True | Inr s' \<Rightarrow> never P xs s'))"

subsection \<open>Concrete controllers\<close>

text \<open>
  \<open>windup_pid\<close>: integral action only (\<open>ki = 1\<close> per second), output limits \<open>[-1, 1]\<close>,
  automatic mode. \<open>narrow_pid\<close>: no gains, output limits \<open>[1, 2]\<close>, automatic mode.
  \<open>tieback_pid\<close>: integral action only, full output range, constructed in manual mode;
  \<open>tieback_cells\<close> has process variable and setpoint 0 and tieback 4.
\<close>

definition windup_pid :: base_pid where
  "windup_pid =
     base_pid_full 0 0 0 (Some 0) (Some 1) (Some 2) (Some 3) 0 1 0 0
       (- FLT_MAX) FLT_MAX (- FLT_MAX) FLT_MAX (Finite (- 1)) 1 False False DT_MIN_PID"

definition narrow_pid :: base_pid where
  "narrow_pid =
     base_pid_full 0 0 0 (Some 0) (Some 1) (Some 2) (Some 3) 0 0 0 0
       (- FLT_MAX) FLT_MAX (- FLT_MAX) FLT_MAX 1 (Finite 2) False False DT_MIN_PID"

definition tieback_pid :: base_pid where
  "tieback_pid =
     base_pid_full 0 0 0 (Some 0) (Some 1) (Some 2) (Some 3) 0 1 0 0
       (- FLT_MAX) FLT_MAX (- FLT_MAX) FLT_MAX (- FLT_MAX) FLT_MAX False True DT_MIN_PID"

definition tieback_cells :: store where
  "tieback_cells = (\<lambda>_. 0)(3 := Finite 4)"

text \<open>\<open>tieback_pid\<close> after one manual cycle at time 10 and \<open>set_man_param(false)\<close>.\<close>

definition tieback_auto :: base_pid where
  "tieback_auto = tieback_pid\<lparr>tmp_dt := 10, lts := 10, tmp_co := Finite 4, man_on := False\<rparr>"

text \<open>
  \<open>overflow_pid\<close>: \<open>kp = 1e30\<close>, \<open>kd = -1e24\<close> per second (stored as \<open>-1e30\<close>), no integral
  action, output limits \<open>[-1, 1]\<close>, automatic mode; \<open>overflow_cells\<close> has process variable 0
  and setpoint \<open>1e10\<close>. All are finite values that the constructor takes as they are.
\<close>

definition overflow_pid :: base_pid where
  "overflow_pid =
     base_pid_full 0 0 0 (Some 0) (Some 1) (Some 2) (Some 3)
       (Finite (10 ^ 30)) 0 (Finite (- (10 ^ 24))) 0
       (- FLT_MAX) FLT_MAX (- FLT_MAX) FLT_MAX (Finite (- 1)) 1 False False DT_MIN_PID"

definition overflow_cells :: store where
  "overflow_cells = (\<lambda>_. 0)(1 := Finite (10 ^ 10))"

subsection \<open>The last manual output of a sequence of calls\<close>

text \<open>
  The output of the last effective manual cycle of the sequence, which is the tieback
  (0 through a null binding) passed through the clamp of the output limits, or \<open>v\<close> when
  the sequence has no effective manual cycle.
\<close>

fun last_manual_output :: "flt \<Rightarrow> call list \<Rightarrow> base_pid \<times> store \<Rightarrow> flt" where
  "last_manual_output v [] s = v"
| "last_manual_output v (x # xs) s =
     (case do_call x s of
        Inl f \<Rightarrow> v
      | Inr s' \<Rightarrow>
          last_manual_output
            (if manual_eval x s then clamp_co (fst s) (cell (tb (fst s)) (snd s)) else v) xs s')"

section \<open>The paths of \<open>run_pid\<close>\<close>

lemma run_pid_not_ready: "\<not> ready c \<Longrightarrow> run_pid t c h = Inr (- 1, c, h)"
  by (auto simp: run_pid_def ready_def)

lemma run_pid_rate_limited:
  "ready c \<Longrightarrow> t - lts c < dtmin c \<Longrightarrow> co c = Some a \<Longrightarrow>
   run_pid t c h = Inr (0, c\<lparr>tmp_dt := t - lts c\<rparr>, h(a := tmp_co c))"
  by (simp add: run_pid_def ready_def write_co_def Let_def)

lemma run_pid_manual:
  "effective t c \<Longrightarrow> man_on c \<Longrightarrow> co c = Some a \<Longrightarrow>
   run_pid t c h =
     Inr (0, c\<lparr>tmp_dt := t - lts c, lts := t, tmp_co := clamp_co c (cell (tb c) h),
               lman_on := True\<rparr>,
          h(a := clamp_co c (cell (tb c) h)))"
  by (simp add: run_pid_def effective_def ready_def manual_cycle_def write_co_def Let_def
      clamp_co_def cell_def)

lemma run_pid_auto:
  "effective t c \<Longrightarrow> \<not> man_on c \<Longrightarrow> run_pid t c h = auto_cycle (seeded t c) h"
  by (auto simp: run_pid_def effective_def ready_def seeded_def Let_def)

lemma seeded_fields:
  "pv (seeded t c) = pv c" "sp (seeded t c) = sp c" "co (seeded t c) = co c"
  "tmp_dt (seeded t c) = t - lts c" "lts (seeded t c) = t"
  "db_on (seeded t c) = db_on c" "db (seeded t c) = db c"
  "tmp_co (seeded t c) = tmp_co c" "lman_on (seeded t c) = False"
  "Iterm (seeded t c) = (if lman_on c then tmp_co c else Iterm c)"
  "kp (seeded t c) = kp c" "ki (seeded t c) = ki c" "kd (seeded t c) = kd c"
  "coll (seeded t c) = coll c" "cohl (seeded t c) = cohl c" "lerr (seeded t c) = lerr c"
  "dtmin (seeded t c) = dtmin c" "man_on (seeded t c) = man_on c" "tb (seeded t c) = tb c"
  by (simp_all add: seeded_def bumpless_def)

lemma auto_cycle_gated:
  "pv c \<noteq> None \<Longrightarrow> sp c \<noteq> None \<Longrightarrow> co c = Some a \<Longrightarrow> gated c h \<Longrightarrow>
   auto_cycle c h =
     Inr (0, c\<lparr>tmp_err := cell (sp c) h - cell (pv c) h, lerr := cell (sp c) h - cell (pv c) h\<rparr>,
          h(a := tmp_co c))"
  by (auto simp: auto_cycle_def gated_def load_def cell_def write_co_def Let_def)

lemma auto_cycle_law:
  "pv c \<noteq> None \<Longrightarrow> sp c \<noteq> None \<Longrightarrow> \<not> gated c h \<Longrightarrow>
   auto_cycle c h = pid_law (c\<lparr>tmp_err := cell (sp c) h - cell (pv c) h\<rparr>) h"
  by (auto simp: auto_cycle_def gated_def load_def cell_def Let_def)

lemma pid_law_result:
  assumes dt: "tmp_dt c \<noteq> 0" and co: "co c = Some a"
  shows "\<exists>c'. pid_law c h = Inr (0, c', h(a := tmp_co c')) \<and>
           Iterm c' = fst (spec_integral_step (ki c) (tmp_err c) (float_of_u64 (tmp_dt c))
                        (coll c) (cohl c) (Iterm c)
                        (kp c * tmp_err c + kd c * (tmp_err c - lerr c) / float_of_u64 (tmp_dt c))) \<and>
           tmp_co c' = clamp_co c (snd (spec_integral_step (ki c) (tmp_err c) (float_of_u64 (tmp_dt c))
                        (coll c) (cohl c) (Iterm c)
                        (kp c * tmp_err c + kd c * (tmp_err c - lerr c) / float_of_u64 (tmp_dt c)))) \<and>
           lerr c' = tmp_err c \<and> lman_on c' = lman_on c \<and> lts c' = lts c \<and>
           coll c' = coll c \<and> cohl c' = cohl c \<and> tmp_dt c' = tmp_dt c"
  using dt co
  by (simp add: pid_law_def write_co_def spec_integral_step_def clamp_co_def Let_def)

lemma effective_elapsed:
  assumes "effective t c"
  shows "dtmin c \<le> t - lts c \<and> 1 \<le> dtmin c \<and> t - lts c \<noteq> 0"
proof -
  from assms have le: "dtmin c \<le> t - lts c" and nz: "dtmin c \<noteq> 0"
    by (simp_all add: effective_def ready_def not_less)
  from nz have "\<not> dtmin c < 1" by simp
  then have one: "1 \<le> dtmin c" by (simp only: not_less)
  from le one have "1 \<le> t - lts c" by (rule order_trans [rotated])
  then have "t - lts c \<noteq> 0" by auto
  with le one show ?thesis by simp
qed

lemma gated_seeded: "gated (seeded t c) h = gated c h"
  by (simp add: gated_def seeded_fields)

lemma run_pid_gated:
  assumes "effective t c" "\<not> man_on c" "gated c h" "co c = Some a"
  shows "run_pid t c h =
     Inr (0, (seeded t c)\<lparr>tmp_err := cell (sp c) h - cell (pv c) h,
                          lerr := cell (sp c) h - cell (pv c) h\<rparr>,
          h(a := tmp_co c))"
proof -
  have "pv (seeded t c) \<noteq> None" "sp (seeded t c) \<noteq> None" "co (seeded t c) = Some a"
    using assms by (simp_all add: seeded_fields effective_def ready_def)
  moreover have "gated (seeded t c) h" using assms by (simp add: gated_seeded)
  ultimately show ?thesis
    using auto_cycle_gated [of "seeded t c" a h] assms
    by (simp add: run_pid_auto seeded_fields)
qed

lemma run_pid_law:
  assumes "effective t c" "\<not> man_on c" "\<not> gated c h"
  shows "run_pid t c h =
     pid_law ((seeded t c)\<lparr>tmp_err := cell (sp c) h - cell (pv c) h\<rparr>) h"
proof -
  have "pv (seeded t c) \<noteq> None" "sp (seeded t c) \<noteq> None"
    using assms by (simp_all add: seeded_fields effective_def ready_def)
  moreover have "\<not> gated (seeded t c) h" using assms by (simp add: gated_seeded)
  ultimately show ?thesis
    using auto_cycle_law [of "seeded t c" h] assms
    by (simp add: run_pid_auto seeded_fields)
qed

lemma run_pid_law_result:
  assumes eff: "effective t c" and auto: "\<not> man_on c" and ng: "\<not> gated c h"
    and co: "co c = Some a"
  shows "\<exists>c'. run_pid t c h = Inr (0, c', h(a := tmp_co c')) \<and>
           Iterm c' = fst (spec_integral_step (ki c) (cell (sp c) h - cell (pv c) h)
                        (float_of_u64 (t - lts c)) (coll c) (cohl c)
                        (if lman_on c then tmp_co c else Iterm c)
                        (kp c * (cell (sp c) h - cell (pv c) h) +
                         kd c * ((cell (sp c) h - cell (pv c) h) - lerr c) / float_of_u64 (t - lts c))) \<and>
           tmp_co c' = clamp_co c (snd (spec_integral_step (ki c) (cell (sp c) h - cell (pv c) h)
                        (float_of_u64 (t - lts c)) (coll c) (cohl c)
                        (if lman_on c then tmp_co c else Iterm c)
                        (kp c * (cell (sp c) h - cell (pv c) h) +
                         kd c * ((cell (sp c) h - cell (pv c) h) - lerr c) / float_of_u64 (t - lts c)))) \<and>
           lerr c' = cell (sp c) h - cell (pv c) h \<and> lman_on c' = False \<and> lts c' = t \<and>
           coll c' = coll c \<and> cohl c' = cohl c \<and> tmp_dt c' = t - lts c"
proof -
  let ?d = "(seeded t c)\<lparr>tmp_err := cell (sp c) h - cell (pv c) h\<rparr>"
  have dt: "tmp_dt ?d \<noteq> 0" using effective_elapsed [OF eff] by (simp add: seeded_fields)
  have cod: "co ?d = Some a" using co by (simp add: seeded_fields)
  from pid_law_result [OF dt cod, of h] obtain c' where
    r: "pid_law ?d h = Inr (0, c', h(a := tmp_co c'))" and
    i: "Iterm c' = fst (spec_integral_step (ki ?d) (tmp_err ?d) (float_of_u64 (tmp_dt ?d))
                        (coll ?d) (cohl ?d) (Iterm ?d)
                        (kp ?d * tmp_err ?d + kd ?d * (tmp_err ?d - lerr ?d) / float_of_u64 (tmp_dt ?d)))" and
    o: "tmp_co c' = clamp_co ?d (snd (spec_integral_step (ki ?d) (tmp_err ?d) (float_of_u64 (tmp_dt ?d))
                        (coll ?d) (cohl ?d) (Iterm ?d)
                        (kp ?d * tmp_err ?d + kd ?d * (tmp_err ?d - lerr ?d) / float_of_u64 (tmp_dt ?d))))" and
    rest: "lerr c' = tmp_err ?d" "lman_on c' = lman_on ?d" "lts c' = lts ?d"
          "coll c' = coll ?d" "cohl c' = cohl ?d" "tmp_dt c' = tmp_dt ?d"
    by blast
  have cl: "clamp_co ?d = clamp_co c" by (simp add: clamp_co_def fun_eq_iff seeded_fields)
  show ?thesis
    apply (rule exI [of _ c'])
    using r i o rest
    by (simp add: run_pid_law [OF eff auto ng] seeded_fields cl)
qed

lemma run_pid_ready_succeeds:
  assumes "ready c"
  shows "\<exists>c' h'. run_pid t c h = Inr (0, c', h')"
proof -
  from assms obtain a where co: "co c = Some a" by (auto simp: ready_def)
  show ?thesis
  proof (cases "t - lts c < dtmin c")
    case True
    then show ?thesis using run_pid_rate_limited [OF assms True co] by blast
  next
    case False
    then have eff: "effective t c" using assms by (simp add: effective_def)
    show ?thesis
    proof (cases "man_on c")
      case True
      then show ?thesis using run_pid_manual [OF eff True co] by blast
    next
      case auto: False
      show ?thesis
      proof (cases "gated c h")
        case True
        then show ?thesis using run_pid_gated [OF eff auto True co] by blast
      next
        case False
        then show ?thesis using run_pid_law_result [OF eff auto False co] by blast
      qed
    qed
  qed
qed

section \<open>Evaluating single-precision values\<close>

lemmas flt_eval =
  zero_flt_def one_flt_def minus_flt_def round_flt_def flt_max_def FLT_MAX_def float_of_u64_def

section \<open>The unit test's controller\<close>

lemma pidPID_fields:
  "pv pidPID = Some 0" "sp pidPID = Some 1" "co pidPID = Some 2" "tb pidPID = Some 3"
  "dtmin pidPID = 10" "lts pidPID = 0" "man_on pidPID = False" "lman_on pidPID = True"
  "db_on pidPID = False" "db pidPID = 0" "tmp_co pidPID = 0" "Iterm pidPID = 0"
  "lerr pidPID = 0" "kp pidPID = 1" "ki pidPID = Finite (1 / 1000000)"
  "kd pidPID = Finite 1000000" "coll pidPID = - FLT_MAX" "cohl pidPID = FLT_MAX"
  by (simp_all add: pidPID_def set_man_param_def base_pid_full_def DT_MIN_PID_def
      one_flt_def round_flt_def flt_max_def)

lemma pidPID_ready: "ready pidPID"
  by (simp add: ready_def pidPID_fields)

lemma pidPID_effective: "effective 1000 pidPID"
  by (simp add: effective_def pidPID_ready pidPID_fields)

section \<open>Failure of \<open>run_pid\<close>\<close>

text \<open>
  Claim C6. \<open>run_pid\<close> returns -1 if and only if one of the bindings \<open>pv\<close>, \<open>sp\<close>, \<open>co\<close>
  is null or \<open>dtmin\<close> is 0. A failing call returns the object and the caller's cells as
  they were: no member is changed and nothing is written. Every other call returns 0.
\<close>

theorem run_pid_fails_iff_not_ready:
  "((\<exists>c' h'. run_pid t c h = Inr (- 1, c', h')) \<longleftrightarrow>
      (pv c = None \<or> sp c = None \<or> co c = None \<or> dtmin c = 0)) \<and>
   (pv c = None \<or> sp c = None \<or> co c = None \<or> dtmin c = 0 \<longrightarrow>
      run_pid t c h = Inr (- 1, c, h)) \<and>
   (\<not> (pv c = None \<or> sp c = None \<or> co c = None \<or> dtmin c = 0) \<longrightarrow>
      (\<exists>c' h'. run_pid t c h = Inr (0, c', h')))"
proof (cases "ready c")
  case True
  then obtain c' h' where "run_pid t c h = Inr (0, c', h')"
    using run_pid_ready_succeeds by blast
  with True show ?thesis by (auto simp: ready_def)
next
  case False
  then have "run_pid t c h = Inr (- 1, c, h)" by (rule run_pid_not_ready)
  with False show ?thesis by (auto simp: ready_def)
qed

theorem run_pid_fails_iff_not_ready_witness:
  "run_pid 10 (base_pid_default 0 0 0) test_cells = Inr (- 1, base_pid_default 0 0 0, test_cells) \<and>
   (\<exists>c' h'. run_pid 1000 pidPID test_cells = Inr (0, c', h'))"
proof -
  have a: "pv (base_pid_default 0 0 0) = None" by (simp add: base_pid_default_def)
  have b: "\<not> (pv pidPID = None \<or> sp pidPID = None \<or> co pidPID = None \<or> dtmin pidPID = 0)"
    by (simp add: pidPID_fields)
  show ?thesis
    using run_pid_fails_iff_not_ready [of 10 "base_pid_default 0 0 0" test_cells]
      run_pid_fails_iff_not_ready [of 1000 pidPID test_cells] a b
    by simp
qed

section \<open>Rate limiting\<close>

text \<open>
  Claim C8. On a call that passes the binding check, if the elapsed time
  \<open>tstamp - lts\<close> (wrapping subtraction) is below \<open>dtmin\<close>, \<open>run_pid\<close> writes the stored
  \<open>tmp_co\<close> through \<open>co\<close> and returns 0; the only member it changes is the scratch
  \<open>tmp_dt\<close>, so \<open>lts\<close>, \<open>Iterm\<close>, \<open>lerr\<close>, \<open>lman_on\<close> and \<open>tmp_co\<close> are as before. A second
  such call, whatever the caller's cells then hold, writes the same value.
\<close>

theorem run_pid_rate_limit_replays:
  assumes "pv c \<noteq> None" "sp c \<noteq> None" "co c = Some a"
    and "t1 - lts c < dtmin c" and "t2 - lts c < dtmin c"
  shows "run_pid t1 c h = Inr (0, c\<lparr>tmp_dt := t1 - lts c\<rparr>, h(a := tmp_co c)) \<and>
         lts (c\<lparr>tmp_dt := t1 - lts c\<rparr>) = lts c \<and>
         Iterm (c\<lparr>tmp_dt := t1 - lts c\<rparr>) = Iterm c \<and>
         lerr (c\<lparr>tmp_dt := t1 - lts c\<rparr>) = lerr c \<and>
         lman_on (c\<lparr>tmp_dt := t1 - lts c\<rparr>) = lman_on c \<and>
         tmp_co (c\<lparr>tmp_dt := t1 - lts c\<rparr>) = tmp_co c \<and>
         (\<forall>h2. run_pid t2 (c\<lparr>tmp_dt := t1 - lts c\<rparr>) h2 =
                 Inr (0, c\<lparr>tmp_dt := t2 - lts c\<rparr>, h2(a := tmp_co c)))"
proof -
  from assms(4) have nz: "dtmin c \<noteq> 0" by auto
  with assms have r: "ready c" by (simp add: ready_def)
  then have r1: "ready (c\<lparr>tmp_dt := t1 - lts c\<rparr>)" by (simp add: ready_def)
  have "run_pid t1 c h = Inr (0, c\<lparr>tmp_dt := t1 - lts c\<rparr>, h(a := tmp_co c))"
    using run_pid_rate_limited [OF r assms(4) assms(3)] .
  moreover have "run_pid t2 (c\<lparr>tmp_dt := t1 - lts c\<rparr>) h2 =
                 Inr (0, c\<lparr>tmp_dt := t2 - lts c\<rparr>, h2(a := tmp_co c))" for h2
    using run_pid_rate_limited [OF r1, of t2 a h2] assms by simp
  ultimately show ?thesis by simp
qed

theorem run_pid_rate_limit_replays_witness:
  "run_pid 3 pidPID test_cells = Inr (0, pidPID\<lparr>tmp_dt := 3\<rparr>, test_cells(2 := 0)) \<and>
   run_pid 7 (pidPID\<lparr>tmp_dt := 3\<rparr>) (test_cells(2 := 0, 1 := Finite 5)) =
     Inr (0, pidPID\<lparr>tmp_dt := 7\<rparr>, test_cells(2 := 0, 1 := Finite 5, 2 := 0))"
proof -
  have "pv pidPID \<noteq> None" "sp pidPID \<noteq> None" "co pidPID = Some 2"
    "3 - lts pidPID < dtmin pidPID" "7 - lts pidPID < dtmin pidPID"
    by (simp_all add: pidPID_fields)
  from run_pid_rate_limit_replays [OF this, of test_cells] show ?thesis
    by (simp add: pidPID_fields)
qed

section \<open>The divisor of the derivative term\<close>

text \<open>
  Claim C9. \<open>run_pid\<close> never divides by zero. When a call reaches the control law
  (an effective evaluation, automatic, not gated by the deadband), the object handed to
  \<open>pid_law\<close> has \<open>tmp_dt = tstamp - lts\<close> with \<open>dtmin \<le> tmp_dt\<close> and \<open>1 \<le> dtmin\<close>, and the
  divisor \<open>(float)tmp_dt\<close> is not 0.
\<close>

theorem run_pid_divisor_nonzero:
  "run_pid t c h \<noteq> Inl Div_by_zero \<and>
   (effective t c \<and> \<not> man_on c \<and> \<not> gated c h \<longrightarrow>
      run_pid t c h = pid_law ((seeded t c)\<lparr>tmp_err := cell (sp c) h - cell (pv c) h\<rparr>) h \<and>
      tmp_dt ((seeded t c)\<lparr>tmp_err := cell (sp c) h - cell (pv c) h\<rparr>) = t - lts c \<and>
      dtmin c \<le> t - lts c \<and> 1 \<le> dtmin c \<and> float_of_u64 (t - lts c) \<noteq> 0)"
proof -
  have "run_pid t c h \<noteq> Inl Div_by_zero"
  proof (cases "ready c")
    case True
    then show ?thesis using run_pid_ready_succeeds [OF True, of t h] by auto
  next
    case False
    then show ?thesis by (simp add: run_pid_not_ready)
  qed
  moreover have "float_of_u64 (t - lts c) \<noteq> 0" if "effective t c"
    using effective_elapsed [OF that]
    by (simp add: float_of_u64_def zero_flt_def unsigned_eq_0_iff)
  ultimately show ?thesis
    using effective_elapsed [of t c] run_pid_law [of t c h]
    by (simp add: seeded_fields)
qed

theorem run_pid_divisor_nonzero_witness:
  "run_pid 1000 pidPID test_cells \<noteq> Inl Div_by_zero \<and>
   dtmin pidPID \<le> 1000 - lts pidPID \<and> 1 \<le> dtmin pidPID \<and>
   float_of_u64 (1000 - lts pidPID) \<noteq> 0"
proof -
  have ng: "\<not> gated pidPID test_cells" by (simp add: gated_def pidPID_fields)
  note inst = run_pid_divisor_nonzero [of 1000 pidPID test_cells]
  from inst have a: "run_pid 1000 pidPID test_cells \<noteq> Inl Div_by_zero" by (rule conjunct1)
  from inst pidPID_effective ng
  have "dtmin pidPID \<le> 1000 - lts pidPID \<and> 1 \<le> dtmin pidPID \<and>
        float_of_u64 (1000 - lts pidPID) \<noteq> 0"
    by (simp only: pidPID_fields simp_thms)
  with a show ?thesis by (rule conjI)
qed

section \<open>The deadband gate\<close>

text \<open>
  Claim C7. In an effective automatic evaluation with the deadband enabled and the error
  \<open>*sp - *pv\<close> below \<open>db\<close> (the signed error, not its magnitude: the witness has error -5
  and deadband 1), \<open>run_pid\<close> computes no proportional, derivative or integral term: it
  stores the error in \<open>lerr\<close>, writes the unchanged \<open>tmp_co\<close> through \<open>co\<close> and returns 0.
  The integral term is left as it stands on reaching the gate, that is after the
  bumpless seeding of lines 320-324, which comes first when \<open>lman_on\<close> is set.
\<close>

theorem run_pid_deadband_gate:
  assumes "effective t c" and "\<not> man_on c" and "db_on c"
    and "cell (sp c) h - cell (pv c) h < db c" and "co c = Some a"
  shows "run_pid t c h =
           Inr (0, c\<lparr>tmp_dt := t - lts c, lts := t, lman_on := False,
                     Iterm := (if lman_on c then tmp_co c else Iterm c),
                     tmp_err := cell (sp c) h - cell (pv c) h,
                     lerr := cell (sp c) h - cell (pv c) h\<rparr>,
                h(a := tmp_co c))"
proof -
  have g: "gated c h" using assms by (simp add: gated_def)
  have "(seeded t c)\<lparr>tmp_err := cell (sp c) h - cell (pv c) h,
                      lerr := cell (sp c) h - cell (pv c) h\<rparr> =
        c\<lparr>tmp_dt := t - lts c, lts := t, lman_on := False,
          Iterm := (if lman_on c then tmp_co c else Iterm c),
          tmp_err := cell (sp c) h - cell (pv c) h,
          lerr := cell (sp c) h - cell (pv c) h\<rparr>"
    by (simp add: seeded_def bumpless_def)
  with run_pid_gated [OF assms(1) assms(2) g assms(5)] show ?thesis by simp
qed

theorem run_pid_deadband_gate_witness:
  "run_pid 1000
       (pidPID\<lparr>db := 1, db_on := True, Iterm := Finite 7, lman_on := False, tmp_co := Finite 9\<rparr>)
       (test_cells(0 := Finite 6)) =
     Inr (0, pidPID\<lparr>db := 1, db_on := True, Iterm := Finite 7, lman_on := False,
                    tmp_co := Finite 9, tmp_dt := 1000, lts := 1000,
                    tmp_err := Finite (- 5), lerr := Finite (- 5)\<rparr>,
          test_cells(0 := Finite 6, 2 := Finite 9))"
proof -
  let ?c = "pidPID\<lparr>db := 1, db_on := True, Iterm := Finite 7, lman_on := False, tmp_co := Finite 9\<rparr>"
  let ?h = "test_cells(0 := Finite 6)"
  have "effective 1000 ?c" "\<not> man_on ?c" "db_on ?c"
    "cell (sp ?c) ?h - cell (pv ?c) ?h < db ?c" "co ?c = Some 2"
    by (simp_all add: effective_def ready_def pidPID_fields cell_def test_cells_def flt_eval)
  from run_pid_deadband_gate [OF this] show ?thesis
    by (simp add: pidPID_fields cell_def test_cells_def flt_eval)
qed

section \<open>Bumpless transfer\<close>

text \<open>
  Claim C5. An effective evaluation in automatic mode with \<open>lman_on\<close> set (the previous
  effective cycle was recorded as manual) runs the rest of the evaluation, from the
  error of line 327 on, on an object whose \<open>Iterm\<close> is the last output \<open>tmp_co\<close> and whose
  \<open>lman_on\<close> is cleared; the call returns 0 with \<open>lman_on\<close> still cleared.
\<close>

theorem run_pid_bumpless_seed:
  assumes "effective t c" and "\<not> man_on c" and "lman_on c"
  shows "run_pid t c h =
           auto_cycle (c\<lparr>tmp_dt := t - lts c, lts := t, lman_on := False, Iterm := tmp_co c\<rparr>) h \<and>
         (\<exists>c' h'. run_pid t c h = Inr (0, c', h') \<and> \<not> lman_on c')"
proof -
  have s: "seeded t c = c\<lparr>tmp_dt := t - lts c, lts := t, lman_on := False, Iterm := tmp_co c\<rparr>"
    using assms(3) by (simp add: seeded_def bumpless_def)
  from assms(1) obtain a where co: "co c = Some a" by (auto simp: effective_def ready_def)
  have "\<exists>c' h'. run_pid t c h = Inr (0, c', h') \<and> \<not> lman_on c'"
  proof (cases "gated c h")
    case True
    from run_pid_gated [OF assms(1) assms(2) True co] show ?thesis
      by (simp add: seeded_fields)
  next
    case False
    from run_pid_law_result [OF assms(1) assms(2) False co] show ?thesis by auto
  qed
  with run_pid_auto [OF assms(1) assms(2), of h] s show ?thesis by simp
qed

theorem run_pid_bumpless_seed_witness:
  "run_pid 1000 (pidPID\<lparr>tmp_co := Finite 9\<rparr>) test_cells =
     auto_cycle (pidPID\<lparr>tmp_co := Finite 9, tmp_dt := 1000, lts := 1000, lman_on := False,
                        Iterm := Finite 9\<rparr>)
       test_cells \<and>
   (\<exists>c' h'. run_pid 1000 (pidPID\<lparr>tmp_co := Finite 9\<rparr>) test_cells = Inr (0, c', h') \<and>
            \<not> lman_on c')"
proof -
  let ?c = "pidPID\<lparr>tmp_co := Finite 9\<rparr>"
  have "effective 1000 ?c" "\<not> man_on ?c" "lman_on ?c"
    by (simp_all add: effective_def ready_def pidPID_fields)
  note inst = run_pid_bumpless_seed [OF this, of test_cells]
  have eq: "?c\<lparr>tmp_dt := 1000 - lts ?c, lts := 1000, lman_on := False, Iterm := tmp_co ?c\<rparr> =
            pidPID\<lparr>tmp_co := Finite 9, tmp_dt := 1000, lts := 1000, lman_on := False,
                   Iterm := Finite 9\<rparr>"
    by (simp add: pidPID_fields)
  from inst show ?thesis unfolding eq .
qed

section \<open>The integral step\<close>

text \<open>
  Claim C4. In an effective, automatic evaluation that the deadband does not gate, the
  stored integral term and the output are those of the integral step as the
  specification words it: \<open>Iterm\<close> is reset to 0 if \<open>ki = 0\<close>; otherwise, with
  \<open>delta = ki * error * elapsed\<close>, the existing integral term (the seeded one, if the
  bumpless transfer ran in this call) is added to the running total
  \<open>kp * error + kd * (error - lerr) / elapsed\<close>, and \<open>delta\<close> is added to both the total
  and \<open>Iterm\<close> unless the total is above \<open>cohl\<close> with \<open>delta > 0\<close> or below \<open>coll\<close> with
  \<open>delta < 0\<close>, in which case \<open>Iterm\<close> is unchanged. The stored output is the clamped total.
\<close>

theorem run_pid_integral_step:
  assumes "effective t c" and "\<not> man_on c" and "\<not> gated c h"
  shows "\<exists>c' h'. run_pid t c h = Inr (0, c', h') \<and>
           Iterm c' = fst (spec_integral_step (ki c) (cell (sp c) h - cell (pv c) h)
                        (float_of_u64 (t - lts c)) (coll c) (cohl c)
                        (if lman_on c then tmp_co c else Iterm c)
                        (kp c * (cell (sp c) h - cell (pv c) h) +
                         kd c * ((cell (sp c) h - cell (pv c) h) - lerr c) / float_of_u64 (t - lts c))) \<and>
           tmp_co c' = clamp_co c (snd (spec_integral_step (ki c) (cell (sp c) h - cell (pv c) h)
                        (float_of_u64 (t - lts c)) (coll c) (cohl c)
                        (if lman_on c then tmp_co c else Iterm c)
                        (kp c * (cell (sp c) h - cell (pv c) h) +
                         kd c * ((cell (sp c) h - cell (pv c) h) - lerr c) / float_of_u64 (t - lts c))))"
proof -
  from assms(1) obtain a where co: "co c = Some a" by (auto simp: effective_def ready_def)
  from run_pid_law_result [OF assms co] show ?thesis by blast
qed

theorem run_pid_integral_step_witness:
  "\<exists>c' h'. run_pid 1000 pidPID test_cells = Inr (0, c', h') \<and>
           Iterm c' = Finite (1 / 1000) \<and> tmp_co c' = Finite (1001001 / 1000)"
proof -
  have "effective 1000 pidPID" "\<not> man_on pidPID" "\<not> gated pidPID test_cells"
    by (simp_all add: pidPID_effective pidPID_fields gated_def)
  from run_pid_integral_step [OF this] show ?thesis
    by (simp add: pidPID_fields cell_def test_cells_def spec_integral_step_def clamp_co_def
        flt_eval Let_def)
qed

section \<open>Validation of the gains\<close>

text \<open>
  Claim C3, evaluated on the code. \<open>kdv = 10^33\<close> is a finite float above
  \<open>FLT_MAX * 1e-6\<close>; \<open>set_gain_param\<close> accepts it and stores the product \<open>10^39\<close>, which is
  above \<open>FLT_MAX\<close> and so an infinity, in \<open>kd\<close>. \<open>kpv = 10^33\<close>, a finite float, is rejected
  with \<open>kiv = kdv = 0\<close>. The upper bound meant for \<open>kdv\<close> is applied to \<open>kpv\<close> (line 221).
\<close>

theorem set_gain_param_bound_on_wrong_input:
  "FLT_MAX * Finite (1 / 1000000) < Finite (10 ^ 33) \<and> Finite (10 ^ 33) \<le> FLT_MAX \<and>
   flt_max < 10 ^ 39 \<and>
   set_gain_param 0 0 (Finite (10 ^ 33)) pidPID = (0, pidPID\<lparr>kp := 0, ki := 0, kd := PInf\<rparr>) \<and>
   set_gain_param (Finite (10 ^ 33)) 0 0 pidPID = (- 1, pidPID)"
  by (simp add: set_gain_param_def flt_eval)

section \<open>The output limits\<close>

lemma NaN_not_less: "\<not> x < NaN"
  by (cases x) simp_all

lemma clamp_co_NaN: "clamp_co c NaN = NaN"
  by (simp add: clamp_co_def NaN_not_less)

lemma clamp_co_in_limits:
  assumes "coll c \<le> cohl c" and "x \<noteq> NaN"
  shows "coll c \<le> clamp_co c x \<and> clamp_co c x \<le> cohl c"
  using assms unfolding clamp_co_def
  by (cases x; cases "coll c"; cases "cohl c") auto

lemma clamp_co_in_limits_or_NaN:
  assumes "coll c \<le> cohl c"
  shows "clamp_co c x = NaN \<or> (coll c \<le> clamp_co c x \<and> clamp_co c x \<le> cohl c)"
  using clamp_co_in_limits [OF assms, of x] clamp_co_NaN [of c] by (cases "x = NaN") auto

lemma run_pid_success:
  assumes ok: "run_pid t c h = Inr (0, c', h')"
  shows "\<exists>a. co c = Some a \<and> h' = h(a := tmp_co c') \<and> coll c' = coll c \<and> cohl c' = cohl c \<and>
           (if \<not> effective t c \<or> (\<not> man_on c \<and> gated c h) then tmp_co c' = tmp_co c
            else \<exists>x. tmp_co c' = clamp_co c x)"
proof -
  have r: "ready c"
  proof (rule ccontr)
    assume "\<not> ready c"
    from run_pid_not_ready [OF this, of t h] ok show False by simp
  qed
  then obtain a where co: "co c = Some a" by (auto simp: ready_def)
  show ?thesis
  proof (cases "t - lts c < dtmin c")
    case True
    then have "\<not> effective t c" by (simp add: effective_def)
    with run_pid_rate_limited [OF r True co, of h] ok co show ?thesis by auto
  next
    case False
    then have eff: "effective t c" using r by (simp add: effective_def)
    show ?thesis
    proof (cases "man_on c")
      case True
      with run_pid_manual [OF eff True co, of h] ok co eff show ?thesis by auto
    next
      case auto: False
      show ?thesis
      proof (cases "gated c h")
        case True
        with run_pid_gated [OF eff auto True co] ok co auto show ?thesis
          by (auto simp: seeded_fields)
      next
        case False
        from run_pid_law_result [OF eff auto False co] obtain d where
          "run_pid t c h = Inr (0, d, h(a := tmp_co d))"
          "tmp_co d = clamp_co c (snd (spec_integral_step (ki c) (cell (sp c) h - cell (pv c) h)
                        (float_of_u64 (t - lts c)) (coll c) (cohl c)
                        (if lman_on c then tmp_co c else Iterm c)
                        (kp c * (cell (sp c) h - cell (pv c) h) +
                         kd c * ((cell (sp c) h - cell (pv c) h) - lerr c) / float_of_u64 (t - lts c))))"
          "coll d = coll c" "cohl d = cohl c"
          by blast
        with ok co eff auto False show ?thesis by auto
      qed
    qed
  qed
qed

text \<open>
  Claim C1, as amended. After a successful \<open>run_pid\<close> call with \<open>coll \<le> cohl\<close>, the stored
  last output \<open>tmp_co\<close> lies within \<open>[coll, cohl]\<close> or is NaN (the clamp of lines 313 and
  361 passes a NaN) when the call was an effective manual cycle or ran the control law,
  and otherwise (a rate-limited or deadband-gated cycle, which leaves \<open>tmp_co\<close> as it
  was) when it was so before the call. No bound is stated for \<open>Iterm\<close>.
\<close>

theorem run_pid_last_output_within_limits:
  assumes "run_pid t c h = Inr (0, c', h')" and "coll c \<le> cohl c"
    and "\<not> effective t c \<or> (\<not> man_on c \<and> gated c h) \<longrightarrow>
           tmp_co c = NaN \<or> (coll c \<le> tmp_co c \<and> tmp_co c \<le> cohl c)"
  shows "coll c' = coll c \<and> cohl c' = cohl c \<and>
         (tmp_co c' = NaN \<or> (coll c' \<le> tmp_co c' \<and> tmp_co c' \<le> cohl c'))"
proof -
  from run_pid_success [OF assms(1)] have
    lim: "coll c' = coll c" "cohl c' = cohl c" and
    out: "if \<not> effective t c \<or> (\<not> man_on c \<and> gated c h) then tmp_co c' = tmp_co c
          else \<exists>x. tmp_co c' = clamp_co c x"
    by blast+
  have "tmp_co c' = NaN \<or> (coll c \<le> tmp_co c' \<and> tmp_co c' \<le> cohl c)"
  proof (cases "\<not> effective t c \<or> (\<not> man_on c \<and> gated c h)")
    case True
    with out assms(3) show ?thesis by simp
  next
    case False
    with out obtain x where "tmp_co c' = clamp_co c x" by auto
    with clamp_co_in_limits_or_NaN [OF assms(2), of x] show ?thesis by simp
  qed
  with lim show ?thesis by simp
qed

text \<open>
  Claim C2, as amended. On a successful \<open>run_pid\<close> call with \<open>coll \<le> cohl\<close>, the value
  written through \<open>co\<close> lies within \<open>[coll, cohl]\<close> or is NaN (the clamp of lines 313 and
  361 passes a NaN) on an effective manual cycle and on a cycle that ran the control law;
  on a rate-limited or deadband-gated cycle the value written is the stored \<open>tmp_co\<close>,
  within the limits or NaN when it was so before the call.
\<close>

theorem run_pid_written_output_within_limits:
  assumes "run_pid t c h = Inr (0, c', h')" and "coll c \<le> cohl c"
    and "\<not> effective t c \<or> (\<not> man_on c \<and> gated c h) \<longrightarrow>
           tmp_co c = NaN \<or> (coll c \<le> tmp_co c \<and> tmp_co c \<le> cohl c)"
  shows "co c \<noteq> None \<and>
         (cell (co c) h' = NaN \<or> (coll c \<le> cell (co c) h' \<and> cell (co c) h' \<le> cohl c))"
proof -
  from run_pid_success [OF assms(1)] obtain a where
    co: "co c = Some a" and wr: "h' = h(a := tmp_co c')" and
    out: "if \<not> effective t c \<or> (\<not> man_on c \<and> gated c h) then tmp_co c' = tmp_co c
          else \<exists>x. tmp_co c' = clamp_co c x"
    by blast
  have "tmp_co c' = NaN \<or> (coll c \<le> tmp_co c' \<and> tmp_co c' \<le> cohl c)"
  proof (cases "\<not> effective t c \<or> (\<not> man_on c \<and> gated c h)")
    case True
    with out assms(3) show ?thesis by simp
  next
    case False
    with out obtain x where "tmp_co c' = clamp_co c x" by auto
    with clamp_co_in_limits_or_NaN [OF assms(2), of x] show ?thesis by simp
  qed
  with co wr show ?thesis by (simp add: cell_def)
qed

lemmas run_pid_unfold =
  run_pid_def manual_cycle_def auto_cycle_def pid_law_def bumpless_def write_co_def load_def
  clamp_co_def Let_def

lemma windup_run:
  "run_pid 10000000 windup_pid test_cells =
     Inr (0, windup_pid\<lparr>tmp_dt := 10000000, lts := 10000000, lman_on := False, tmp_err := 1,
                        lerr := 1, d_iterm := Finite 10, Iterm := Finite 10, tmp_co := 1\<rparr>,
          test_cells(2 := 1))"
  by (simp add: run_pid_unfold windup_pid_def base_pid_full_def DT_MIN_PID_def test_cells_def
      flt_eval)

lemma narrow_run:
  "t < 10 \<Longrightarrow> run_pid t narrow_pid test_cells =
     Inr (0, narrow_pid\<lparr>tmp_dt := t\<rparr>, test_cells(2 := 0))"
  by (simp add: run_pid_unfold narrow_pid_def base_pid_full_def DT_MIN_PID_def test_cells_def)

lemma tieback_run:
  "run_pid 10 tieback_pid tieback_cells =
     Inr (0, tieback_pid\<lparr>tmp_dt := 10, lts := 10, tmp_co := Finite 4, lman_on := True\<rparr>,
          tieback_cells(2 := Finite 4))"
  by (simp add: run_pid_unfold tieback_pid_def base_pid_full_def DT_MIN_PID_def
      tieback_cells_def flt_eval)

lemma pidPID_run:
  "run_pid 1000 pidPID test_cells =
     Inr (0, pidPID\<lparr>tmp_dt := 1000, lts := 1000, lman_on := False, tmp_err := 1, lerr := 1,
                    d_iterm := Finite (1 / 1000), Iterm := Finite (1 / 1000),
                    tmp_co := Finite (1001001 / 1000)\<rparr>,
          test_cells(2 := Finite (1001001 / 1000)))"
  by (simp add: run_pid_unfold pidPID_def set_man_param_def base_pid_full_def DT_MIN_PID_def
      test_cells_def flt_eval)

lemma overflow_run:
  "run_pid 10 overflow_pid overflow_cells =
     Inr (0, overflow_pid\<lparr>tmp_dt := 10, lts := 10, lman_on := False, tmp_err := Finite (10 ^ 10),
                          lerr := Finite (10 ^ 10), tmp_co := NaN\<rparr>,
          overflow_cells(2 := NaN))"
  by (simp add: run_pid_unfold overflow_pid_def base_pid_full_def DT_MIN_PID_def
      overflow_cells_def flt_eval)

text \<open>
  Claim C1 as stated fails. \<open>windup_pid\<close>, limits \<open>[-1, 1]\<close>, error 1 over 10 seconds: the
  running total 0 is inside the limits, so the delta 10 is added and \<open>Iterm\<close> becomes 10
  while the output is clamped to 1. \<open>narrow_pid\<close>, limits \<open>[1, 2]\<close>, called within the
  minimum interval: the call succeeds and \<open>tmp_co\<close> and \<open>Iterm\<close> are the initial 0.
  \<open>overflow_pid\<close>, limits \<open>[-1, 1]\<close>: the proportional term overflows to \<open>+inf\<close>, the
  derivative term to \<open>-inf\<close>, their sum is NaN, and the clamp stores it.
\<close>

theorem integral_term_and_last_output_escape_limits:
  "run_pid 10000000 windup_pid test_cells =
     Inr (0, windup_pid\<lparr>tmp_dt := 10000000, lts := 10000000, lman_on := False, tmp_err := 1,
                        lerr := 1, d_iterm := Finite 10, Iterm := Finite 10, tmp_co := 1\<rparr>,
          test_cells(2 := 1)) \<and>
   coll windup_pid = Finite (- 1) \<and> cohl windup_pid = Finite 1 \<and>
   \<not> Iterm (windup_pid\<lparr>tmp_dt := 10000000, lts := 10000000, lman_on := False, tmp_err := 1,
                        lerr := 1, d_iterm := Finite 10, Iterm := Finite 10, tmp_co := 1\<rparr>)
       \<le> cohl windup_pid \<and>
   run_pid 5 narrow_pid test_cells = Inr (0, narrow_pid\<lparr>tmp_dt := 5\<rparr>, test_cells(2 := 0)) \<and>
   coll narrow_pid = Finite 1 \<and> cohl narrow_pid = Finite 2 \<and>
   \<not> coll narrow_pid \<le> tmp_co (narrow_pid\<lparr>tmp_dt := 5\<rparr>) \<and>
   \<not> coll narrow_pid \<le> Iterm (narrow_pid\<lparr>tmp_dt := 5\<rparr>) \<and>
   run_pid 10 overflow_pid overflow_cells =
     Inr (0, overflow_pid\<lparr>tmp_dt := 10, lts := 10, lman_on := False, tmp_err := Finite (10 ^ 10),
                          lerr := Finite (10 ^ 10), tmp_co := NaN\<rparr>,
          overflow_cells(2 := NaN)) \<and>
   coll overflow_pid \<le> cohl overflow_pid \<and>
   \<not> coll overflow_pid \<le> tmp_co (overflow_pid\<lparr>tmp_dt := 10, lts := 10, lman_on := False,
          tmp_err := Finite (10 ^ 10), lerr := Finite (10 ^ 10), tmp_co := NaN\<rparr>)"
  using windup_run narrow_run [of 5] overflow_run
  by (simp add: windup_pid_def narrow_pid_def overflow_pid_def base_pid_full_def flt_eval)

text \<open>
  Claim C2 as stated fails: the first call on \<open>narrow_pid\<close>, limits \<open>[1, 2]\<close>, at time 0 is
  rate-limited and writes the initial \<open>tmp_co = 0\<close> through \<open>co\<close>; the call on
  \<open>overflow_pid\<close>, limits \<open>[-1, 1]\<close>, runs the control law and writes NaN.
\<close>

theorem rate_limited_write_outside_limits:
  "run_pid 0 narrow_pid test_cells = Inr (0, narrow_pid\<lparr>tmp_dt := 0\<rparr>, test_cells(2 := 0)) \<and>
   co narrow_pid = Some 2 \<and> coll narrow_pid = Finite 1 \<and> cohl narrow_pid = Finite 2 \<and>
   \<not> coll narrow_pid \<le> (test_cells(2 := 0)) 2 \<and>
   run_pid 10 overflow_pid overflow_cells =
     Inr (0, overflow_pid\<lparr>tmp_dt := 10, lts := 10, lman_on := False, tmp_err := Finite (10 ^ 10),
                          lerr := Finite (10 ^ 10), tmp_co := NaN\<rparr>,
          overflow_cells(2 := NaN)) \<and>
   co overflow_pid = Some 2 \<and> coll overflow_pid \<le> cohl overflow_pid \<and>
   \<not> coll overflow_pid \<le> (overflow_cells(2 := NaN)) 2"
  using narrow_run [of 0] overflow_run
  by (simp add: narrow_pid_def overflow_pid_def base_pid_full_def flt_eval)

theorem run_pid_last_output_within_limits_witness:
  "coll pidPID \<le> cohl pidPID \<and>
   (Finite (1001001 / 1000) = NaN \<or>
    (coll pidPID \<le> Finite (1001001 / 1000) \<and> Finite (1001001 / 1000) \<le> cohl pidPID))"
proof -
  have lim: "coll pidPID \<le> cohl pidPID" by (simp add: pidPID_fields flt_eval)
  have pre: "\<not> effective 1000 pidPID \<or> (\<not> man_on pidPID \<and> gated pidPID test_cells) \<longrightarrow>
           tmp_co pidPID = NaN \<or> (coll pidPID \<le> tmp_co pidPID \<and> tmp_co pidPID \<le> cohl pidPID)"
    by (simp add: pidPID_effective gated_def pidPID_fields)
  from run_pid_last_output_within_limits [OF pidPID_run lim pre] lim show ?thesis by simp
qed

theorem run_pid_written_output_within_limits_witness:
  "coll tieback_pid \<le> cohl tieback_pid \<and>
   (cell (co tieback_pid) (tieback_cells(2 := Finite 4)) = NaN \<or>
    (coll tieback_pid \<le> cell (co tieback_pid) (tieback_cells(2 := Finite 4)) \<and>
     cell (co tieback_pid) (tieback_cells(2 := Finite 4)) \<le> cohl tieback_pid))"
proof -
  have lim: "coll tieback_pid \<le> cohl tieback_pid"
    by (simp add: tieback_pid_def base_pid_full_def flt_eval)
  have pre: "\<not> effective 10 tieback_pid \<or> (\<not> man_on tieback_pid \<and> gated tieback_pid tieback_cells) \<longrightarrow>
           tmp_co tieback_pid = NaN \<or>
           (coll tieback_pid \<le> tmp_co tieback_pid \<and> tmp_co tieback_pid \<le> cohl tieback_pid)"
    by (simp add: tieback_pid_def base_pid_full_def flt_eval)
  from run_pid_written_output_within_limits [OF tieback_run lim pre] lim show ?thesis by simp
qed

section \<open>Before the first automatic evaluation\<close>

lemma setters_keep_transient:
  "lman_on (snd (set_pv_limits ll hl c)) = lman_on c \<and> tmp_co (snd (set_pv_limits ll hl c)) = tmp_co c"
  "lman_on (snd (set_sp_limits ll hl c)) = lman_on c \<and> tmp_co (snd (set_sp_limits ll hl c)) = tmp_co c"
  "lman_on (snd (set_cp_limits ll hl c)) = lman_on c \<and> tmp_co (snd (set_cp_limits ll hl c)) = tmp_co c"
  "lman_on (snd (set_gain_param kpv kiv kdv c)) = lman_on c \<and>
   tmp_co (snd (set_gain_param kpv kiv kdv c)) = tmp_co c"
  "lman_on (snd (set_db_param dbv b c)) = lman_on c \<and> tmp_co (snd (set_db_param dbv b c)) = tmp_co c"
  "lman_on (set_man_param b c) = lman_on c \<and> tmp_co (set_man_param b c) = tmp_co c"
  "lman_on (snd (set_dtmin_param d c)) = lman_on c \<and> tmp_co (snd (set_dtmin_param d c)) = tmp_co c"
  by (simp_all add: set_pv_limits_def set_sp_limits_def set_cp_limits_def set_gain_param_def
      set_db_param_def set_man_param_def set_dtmin_param_def Let_def)

lemma run_pid_keeps_transient:
  assumes "run_pid t c h = Inr (r, c', h')" and "\<not> (effective t c \<and> \<not> man_on c)"
  shows "(lman_on c \<longrightarrow> lman_on c') \<and>
         tmp_co c' = (if effective t c \<and> man_on c then clamp_co c (cell (tb c) h) else tmp_co c)"
proof (cases "ready c")
  case False
  then have "\<not> effective t c" by (simp add: effective_def)
  with run_pid_not_ready [OF False, of t h] assms(1) show ?thesis by simp
next
  case True
  then obtain a where co: "co c = Some a" by (auto simp: ready_def)
  show ?thesis
  proof (cases "t - lts c < dtmin c")
    case lt: True
    then have "\<not> effective t c" by (simp add: effective_def)
    with run_pid_rate_limited [OF True lt co, of h] assms(1) show ?thesis by auto
  next
    case False
    with True have eff: "effective t c" by (simp add: effective_def)
    with assms(2) have m: "man_on c" by simp
    from run_pid_manual [OF eff m co, of h] assms(1) eff m show ?thesis by auto
  qed
qed

lemma do_call_keeps_transient:
  assumes "do_call x (c, h) = Inr (c', h')" and "\<not> auto_eval x (c, h)"
  shows "(lman_on c \<longrightarrow> lman_on c') \<and>
         tmp_co c' = (if manual_eval x (c, h) then clamp_co c (cell (tb c) h) else tmp_co c)"
proof (cases x)
  case (Run_pid t)
  with assms(1) obtain r where "run_pid t c h = Inr (r, c', h')"
    by (auto split: sum.splits)
  from run_pid_keeps_transient [OF this] assms(2) Run_pid show ?thesis by simp
qed (use assms(1) in \<open>auto simp: setters_keep_transient\<close>)

lemma do_calls_keep_transient:
  assumes "do_calls xs (c, h) = Inr (c', h')" and "never auto_eval xs (c, h)"
  shows "(lman_on c \<longrightarrow> lman_on c') \<and> tmp_co c' = last_manual_output (tmp_co c) xs (c, h)"
  using assms
proof (induction xs arbitrary: c h)
  case Nil
  then show ?case by simp
next
  case (Cons x xs)
  from Cons.prems(1) obtain c1 h1 where
    s1: "do_call x (c, h) = Inr (c1, h1)" and rest: "do_calls xs (c1, h1) = Inr (c', h')"
    by (auto split: sum.splits)
  from Cons.prems(2) s1 have na: "\<not> auto_eval x (c, h)" and nr: "never auto_eval xs (c1, h1)"
    by simp_all
  from do_call_keeps_transient [OF s1 na] Cons.IH [OF rest nr] s1
  show ?case by auto
qed

lemma last_manual_output_none:
  "never manual_eval xs s \<Longrightarrow> last_manual_output v xs s = v"
  by (induction xs arbitrary: s) (auto split: sum.splits)

text \<open>
  Claim C10, as amended. Each of the three constructors sets \<open>lman_on\<close>, whatever the
  manual-mode argument, and sets \<open>tmp_co\<close> and \<open>Iterm\<close> to 0. After any sequence of calls
  on the constructed controller that contains no effective automatic evaluation,
  \<open>lman_on\<close> is still set, so the first effective automatic evaluation runs the bumpless
  seeding: the rest of the evaluation runs with \<open>Iterm\<close> equal to the stored last output
  \<open>tmp_co\<close>. That value is the output of the last effective manual cycle (the clamped
  tieback), and the initial 0 when no effective manual cycle came before.
\<close>

theorem first_automatic_evaluation_seeds:
  assumes "c0 = base_pid_default dt0 err0 di0 \<or>
           c0 = base_pid_minimal dt0 err0 di0 ppv psp pco ptie \<or>
           c0 = base_pid_full dt0 err0 di0 ppv psp pco ptie kpv kiv kdv dbv
                  pvllv pvhlv spllv sphlv collv cohlv db_onv man_onv dtminv"
    and "do_calls xs (c0, h0) = Inr (c, h)"
    and "never auto_eval xs (c0, h0)"
    and "effective t c" and "\<not> man_on c"
  shows "lman_on c0 \<and> tmp_co c0 = 0 \<and> Iterm c0 = 0 \<and> lman_on c \<and>
         tmp_co c = last_manual_output 0 xs (c0, h0) \<and>
         run_pid t c h =
           auto_cycle (c\<lparr>tmp_dt := t - lts c, lts := t, lman_on := False,
                         Iterm := last_manual_output 0 xs (c0, h0)\<rparr>) h \<and>
         (never manual_eval xs (c0, h0) \<longrightarrow> last_manual_output 0 xs (c0, h0) = 0)"
proof -
  from assms(1) have init: "lman_on c0 \<and> tmp_co c0 = 0 \<and> Iterm c0 = 0"
    by (auto simp: base_pid_default_def base_pid_minimal_def base_pid_full_def)
  from do_calls_keep_transient [OF assms(2) assms(3)] init
  have l: "lman_on c" and o: "tmp_co c = last_manual_output 0 xs (c0, h0)"
    by simp_all
  have "seeded t c = c\<lparr>tmp_dt := t - lts c, lts := t, lman_on := False, Iterm := tmp_co c\<rparr>"
    using l by (simp add: seeded_def bumpless_def)
  with run_pid_auto [OF assms(4) assms(5), of h] init l o
    last_manual_output_none [of xs "(c0, h0)" 0]
  show ?thesis by simp
qed

theorem first_automatic_evaluation_seeds_witness:
  "lman_on tieback_auto \<and> tmp_co tieback_auto = Finite 4 \<and>
   last_manual_output 0 [Run_pid 10, Set_man_param False] (tieback_pid, tieback_cells) = Finite 4 \<and>
   run_pid 20 tieback_auto (tieback_cells(2 := Finite 4)) =
     auto_cycle (tieback_auto\<lparr>tmp_dt := 10, lts := 20, lman_on := False, Iterm := Finite 4\<rparr>)
       (tieback_cells(2 := Finite 4))"
proof -
  let ?xs = "[Run_pid 10, Set_man_param False]"
  have m: "effective 10 tieback_pid" "man_on tieback_pid"
    by (simp_all add: effective_def ready_def tieback_pid_def base_pid_full_def DT_MIN_PID_def)
  have after: "set_man_param False
                 (tieback_pid\<lparr>tmp_dt := 10, lts := 10, tmp_co := Finite 4, lman_on := True\<rparr>) =
               tieback_auto"
    by (simp add: tieback_auto_def set_man_param_def tieback_pid_def base_pid_full_def)
  then have calls: "do_calls ?xs (tieback_pid, tieback_cells) =
                      Inr (tieback_auto, tieback_cells(2 := Finite 4))"
    by (simp only: do_calls.simps do_call.simps tieback_run sum.case prod.case)
  have quiet: "never auto_eval ?xs (tieback_pid, tieback_cells)"
    using m by (simp add: tieback_run)
  have eff: "effective 20 tieback_auto" "\<not> man_on tieback_auto"
    by (simp_all add: effective_def ready_def tieback_auto_def tieback_pid_def base_pid_full_def
        DT_MIN_PID_def)
  have "last_manual_output 0 ?xs (tieback_pid, tieback_cells) =
          clamp_co tieback_pid (cell (tb tieback_pid) tieback_cells)"
    using m by (simp add: tieback_run)
  also have "\<dots> = Finite 4"
    by (simp add: clamp_co_def cell_def tieback_pid_def base_pid_full_def tieback_cells_def
        flt_eval)
  finally have lmo: "last_manual_output 0 ?xs (tieback_pid, tieback_cells) = Finite 4" .
  have dt: "20 - lts tieback_auto = 10"
    by (simp add: tieback_auto_def)
  have "tieback_pid = base_pid_default 0 0 0 \<or>
        tieback_pid = base_pid_minimal 0 0 0 (Some 0) (Some 1) (Some 2) (Some 3) \<or>
        tieback_pid = base_pid_full 0 0 0 (Some 0) (Some 1) (Some 2) (Some 3) 0 1 0 0
          (- FLT_MAX) FLT_MAX (- FLT_MAX) FLT_MAX (- FLT_MAX) FLT_MAX False True DT_MIN_PID"
    by (simp add: tieback_pid_def)
  from first_automatic_evaluation_seeds [OF this calls quiet eff]
  show ?thesis unfolding lmo dt by simp
qed

text \<open>
  Claim C10 as stated fails. \<open>tieback_pid\<close> is constructed in manual mode with tieback 4.
  A manual cycle at time 10 and \<open>set_man_param(false)\<close> lead to \<open>tieback_auto\<close>; no
  automatic evaluation has run. The first one, at time 20, leaves \<open>Iterm = 4\<close>, not what
  the evaluation gives when the integral term is seeded with 0.
\<close>

theorem first_automatic_evaluation_seed_not_zero:
  "do_calls [Run_pid 10, Set_man_param False] (tieback_pid, tieback_cells) =
     Inr (tieback_auto, tieback_cells(2 := Finite 4)) \<and>
   never auto_eval [Run_pid 10, Set_man_param False] (tieback_pid, tieback_cells) \<and>
   effective 20 tieback_auto \<and> \<not> man_on tieback_auto \<and>
   run_pid 20 tieback_auto (tieback_cells(2 := Finite 4)) =
     Inr (0, tieback_auto\<lparr>tmp_dt := 10, lts := 20, lman_on := False, tmp_err := 0, lerr := 0,
                          d_iterm := 0, Iterm := Finite 4, tmp_co := Finite 4\<rparr>,
          tieback_cells(2 := Finite 4)) \<and>
   auto_cycle (tieback_auto\<lparr>tmp_dt := 10, lts := 20, lman_on := False, Iterm := 0\<rparr>)
       (tieback_cells(2 := Finite 4)) =
     Inr (0, tieback_auto\<lparr>tmp_dt := 10, lts := 20, lman_on := False, tmp_err := 0, lerr := 0,
                          d_iterm := 0, Iterm := 0, tmp_co := 0\<rparr>,
          tieback_cells(2 := 0))"
proof -
  have m: "effective 10 tieback_pid" "man_on tieback_pid"
    by (simp_all add: effective_def ready_def tieback_pid_def base_pid_full_def DT_MIN_PID_def)
  have "set_man_param False
          (tieback_pid\<lparr>tmp_dt := 10, lts := 10, tmp_co := Finite 4, lman_on := True\<rparr>) =
        tieback_auto"
    by (simp add: tieback_auto_def set_man_param_def tieback_pid_def base_pid_full_def)
  then have "do_calls [Run_pid 10, Set_man_param False] (tieback_pid, tieback_cells) =
     Inr (tieback_auto, tieback_cells(2 := Finite 4))"
    by (simp only: do_calls.simps do_call.simps tieback_run sum.case prod.case)
  moreover have "never auto_eval [Run_pid 10, Set_man_param False] (tieback_pid, tieback_cells)"
    using m by (simp add: tieback_run)
  moreover have "effective 20 tieback_auto \<and> \<not> man_on tieback_auto"
    by (simp add: effective_def ready_def tieback_auto_def tieback_pid_def base_pid_full_def
        DT_MIN_PID_def)
  moreover have "run_pid 20 tieback_auto (tieback_cells(2 := Finite 4)) =
     Inr (0, tieback_auto\<lparr>tmp_dt := 10, lts := 20, lman_on := False, tmp_err := 0, lerr := 0,
                          d_iterm := 0, Iterm := Finite 4, tmp_co := Finite 4\<rparr>,
          tieback_cells(2 := Finite 4))"
    by (simp add: run_pid_unfold tieback_auto_def tieback_pid_def base_pid_full_def DT_MIN_PID_def
        tieback_cells_def flt_eval)
  moreover have "auto_cycle (tieback_auto\<lparr>tmp_dt := 10, lts := 20, lman_on := False, Iterm := 0\<rparr>)
       (tieback_cells(2 := Finite 4)) =
     Inr (0, tieback_auto\<lparr>tmp_dt := 10, lts := 20, lman_on := False, tmp_err := 0, lerr := 0,
                          d_iterm := 0, Iterm := 0, tmp_co := 0\<rparr>,
          tieback_cells(2 := 0))"
    by (simp add: run_pid_unfold tieback_auto_def tieback_pid_def base_pid_full_def DT_MIN_PID_def
        tieback_cells_def flt_eval)
  ultimately show ?thesis by blast
qed

end
